theory Spec2Isabelle
  imports Main "HOL-Library.Word"
begin

section \<open>Vocabulary shared by the four services\<close>

text \<open>
  Each service is a Go program of its own (\<^verbatim>\<open>services/gateway\<close>, \<^verbatim>\<open>services/jokes\<close>,
  \<^verbatim>\<open>services/analytics\<close>, \<^verbatim>\<open>services/user\<close>). Package-level variables become fields
  of a state record that every handler takes and returns. What a handler reads from
  outside the program is a parameter of its model: every \<^verbatim>\<open>time.Now()\<close> is a \<open>Time\<close>
  argument (in the order of the calls), \<^verbatim>\<open>os.Getenv\<close> reads an environment map, the
  global random source is a field of the state, and \<^verbatim>\<open>Time.Format\<close> is the parameter
  \<open>fmt\<close>. Logging and span bookkeeping carry no data that reaches a response, a
  counter or a stored record, and are left out.
\<close>

type_synonym Time = int
  \<comment> \<open>an instant, in nanoseconds on the process clock\<close>

type_synonym Duration = int
  \<comment> \<open>\<^verbatim>\<open>time.Duration\<close>: an int64 count of nanoseconds\<close>

type_synonym trace_context = string
  \<comment> \<open>the propagated token carried by a request's \<^verbatim>\<open>context.Context\<close>\<close>

definition minDuration :: Duration where
  "minDuration = - (2 ^ 63)"

definition maxDuration :: Duration where
  "maxDuration = 2 ^ 63 - 1"

definition Sub :: "Time \<Rightarrow> Time \<Rightarrow> Duration" where
  \<comment> \<open>\<^verbatim>\<open>t.Sub(u)\<close>: the difference, saturated to the range of \<^verbatim>\<open>Duration\<close>\<close>
  "Sub t u =
     (if t - u > maxDuration then maxDuration
      else if t - u < minDuration then minDuration
      else t - u)"

definition Since :: "Time \<Rightarrow> Time \<Rightarrow> Duration" where
  \<comment> \<open>\<^verbatim>\<open>time.Since(t)\<close> is \<^verbatim>\<open>time.Now().Sub(t)\<close>; the reading of the clock is \<open>now\<close>\<close>
  "Since now t = Sub now t"

definition Milliseconds :: "Duration \<Rightarrow> int" where
  \<comment> \<open>\<^verbatim>\<open>int64(d) / 1e6\<close>; Go's integer division truncates towards zero\<close>
  "Milliseconds d = sgn d * (\<bar>d\<bar> div 1000000)"

definition Second :: Duration where
  "Second = 1000000000"

definition RFC3339 :: string where
  "RFC3339 = ''2006-01-02T15:04:05Z07:00''"

definition Getenv :: "(string \<rightharpoonup> string) \<Rightarrow> string \<Rightarrow> string" where
  \<comment> \<open>\<^verbatim>\<open>os.Getenv\<close>: the empty string when the variable is not set\<close>
  "Getenv env k = (case env k of None \<Rightarrow> [] | Some v \<Rightarrow> v)"

datatype json =
    JNull
  | JStr string
  | JInt int
  | JSeconds Duration
    \<comment> \<open>the float64 that \<^verbatim>\<open>Duration.Seconds()\<close> gives for this many nanoseconds\<close>
  | JArr "json list"
  | JObj "(string \<times> json) list"

datatype payload =
    JSON json
    \<comment> \<open>\<^verbatim>\<open>c.JSON(code, obj)\<close>\<close>
  | Data string string
    \<comment> \<open>\<^verbatim>\<open>c.Data(code, contentType, bytes)\<close>\<close>

record response =
  status :: int
  payload :: payload

fun field :: "string \<Rightarrow> response \<Rightarrow> json option" where
  "field k \<lparr>status = _, payload = JSON (JObj kvs)\<rparr> = map_of kvs k"
| "field k _ = None"

datatype header =
    Header string string
    \<comment> \<open>\<^verbatim>\<open>req.Header.Set(key, value)\<close>\<close>
  | Injected trace_context
    \<comment> \<open>what \<^verbatim>\<open>otel.GetTextMapPropagator().Inject(ctx, carrier)\<close> writes for \<open>ctx\<close>\<close>

record outbound =
  o_method :: string
  o_url :: string
  o_body :: "string option"
  o_headers :: "header list"
  o_timeout :: Duration
    \<comment> \<open>the \<^verbatim>\<open>Timeout\<close> of the \<^verbatim>\<open>http.Client\<close> that sends it\<close>

datatype panic = Panic string

record upstream =
  StatusCode :: int
  Body :: "string + string"
    \<comment> \<open>what \<^verbatim>\<open>io.ReadAll(resp.Body)\<close> gives: \<open>Inl\<close> an error, \<open>Inr\<close> the bytes\<close>

record network =
  NewRequest :: "string \<Rightarrow> string \<Rightarrow> string option"
    \<comment> \<open>the error of \<^verbatim>\<open>http.NewRequest\<close> and \<^verbatim>\<open>http.NewRequestWithContext\<close> for a method
        and a URL, if any\<close>
  Do :: "outbound \<Rightarrow> string + upstream"
    \<comment> \<open>\<^verbatim>\<open>client.Do(req)\<close>: \<open>Inl\<close> an error (the network, the timeout), \<open>Inr\<close> the
        backend's response\<close>

section \<open>Jokes service\<close>

definition jokes :: "string list" where
  "jokes =
    [''Why do programmers hate nature? It has too many bugs.'',
     ''I told my computer I needed a break, and it said 'No problem ''
        @ [CHR 0xE2, CHR 0x80, CHR 0x94] @ '' I'll go to sleep.'' @ [CHR 0x27],
     ''Debugging is like being the detective in a crime movie where you are also the murderer.'',
     ''Why do Java developers wear glasses? Because they don't C#.'',
     ''To understand recursion, you must first understand recursion.'',
     ''There are 10 types of people: those who understand binary and those who don't.'',
     ''Why did the programmer quit? Because they didn't get arrays.'',
     ''A SQL query walks into a bar, walks up to two tables and asks: 'Can I join you?''
        @ [CHR 0x27]]"

record rng =
  draws :: "nat \<Rightarrow> nat"
    \<comment> \<open>the raw values the global source of \<^verbatim>\<open>math/rand\<close> will produce\<close>
  pos :: nat
    \<comment> \<open>how many have been consumed\<close>

definition Intn :: "int \<Rightarrow> rng \<Rightarrow> panic + int \<times> rng" where
  \<comment> \<open>\<^verbatim>\<open>rand.Intn(n)\<close>: panics when \<open>n \<le> 0\<close>, otherwise a value in \<open>[0, n)\<close>\<close>
  "Intn n g =
     (if n \<le> 0 then Inl (Panic ''invalid argument to Intn'')
      else Inr (int (draws g (pos g)) mod n, g\<lparr>pos := Suc (pos g)\<rparr>))"

definition index :: "'a list \<Rightarrow> int \<Rightarrow> panic + 'a" where
  \<comment> \<open>\<^verbatim>\<open>xs[i]\<close> with Go's bounds check\<close>
  "index xs i =
     (if 0 \<le> i \<and> i < int (length xs) then Inr (xs ! nat i)
      else Inl (Panic ''index out of range''))"

definition rune :: "int \<Rightarrow> int" where
  \<comment> \<open>\<^verbatim>\<open>rune(n)\<close>: the conversion of an \<^verbatim>\<open>int\<close> to \<^verbatim>\<open>int32\<close> keeps the low 32 bits\<close>
  "rune n = sint (word_of_int n :: 32 word)"

definition string_of_rune :: "int \<Rightarrow> string" where
  \<comment> \<open>\<^verbatim>\<open>string(r)\<close>: the UTF-8 encoding of code point \<open>r\<close>, that of U+FFFD when \<open>r\<close> is
      negative, a surrogate or beyond U+10FFFF\<close>
  "string_of_rune r =
     (if r < 0 \<or> (0xD800 \<le> r \<and> r < 0xE000) \<or> 0x10FFFF < r then
        [CHR 0xEF, CHR 0xBF, CHR 0xBD]
      else if r < 0x80 then [char_of r]
      else if r < 0x800 then [char_of (0xC0 + r div 64), char_of (0x80 + r mod 64)]
      else if r < 0x10000 then
        [char_of (0xE0 + r div 4096), char_of (0x80 + r div 64 mod 64),
         char_of (0x80 + r mod 64)]
      else
        [char_of (0xF0 + r div 262144), char_of (0x80 + r div 4096 mod 64),
         char_of (0x80 + r div 64 mod 64), char_of (0x80 + r mod 64)])"

record jokes_service =
  jokes_var :: "string list"
    \<comment> \<open>the package-level \<^verbatim>\<open>jokes\<close>\<close>
  jokesServed :: int
    \<comment> \<open>the sum of what was added to the counter \<^verbatim>\<open>jokes.served\<close>\<close>
  jokeLatency :: "int list"
    \<comment> \<open>the observations of the histogram \<^verbatim>\<open>jokes.latency\<close>, oldest first\<close>
  slept :: "Duration list"
    \<comment> \<open>the arguments of \<^verbatim>\<open>time.Sleep\<close>, oldest first\<close>
  spawned :: "outbound list"
    \<comment> \<open>the requests that goroutines of \<^verbatim>\<open>notifyAnalytics\<close> give to \<^verbatim>\<open>client.Do\<close>,
        oldest first\<close>
  crashing :: bool
    \<comment> \<open>a goroutine of \<^verbatim>\<open>notifyAnalytics\<close> dereferences a nil request: nothing recovers
        the panic of a goroutine, and the runtime ends the process\<close>
  rand :: rng

definition jokes_start :: "rng \<Rightarrow> jokes_service" where
  \<comment> \<open>the state when \<^verbatim>\<open>main\<close> starts serving\<close>
  "jokes_start g =
     \<lparr>jokes_var = jokes, jokesServed = 0, jokeLatency = [], slept = [], spawned = [],
      crashing = False, rand = g\<rparr>"

definition getRandomJoke ::
  "Time \<Rightarrow> Time \<Rightarrow> jokes_service \<Rightarrow> panic + string \<times> jokes_service"
where
  \<comment> \<open>\<open>start\<close> is the reading of \<^verbatim>\<open>time.Now()\<close>, \<open>finish\<close> the one inside
      \<^verbatim>\<open>time.Since(start)\<close>\<close>
  "getRandomJoke start finish s =
     (case Intn 50 (rand s) of
        Inl p \<Rightarrow> Inl p
      | Inr (ms, g1) \<Rightarrow>
          (case Intn (int (length (jokes_var s))) g1 of
             Inl p \<Rightarrow> Inl p
           | Inr (i, g2) \<Rightarrow>
               (case index (jokes_var s) i of
                  Inl p \<Rightarrow> Inl p
                | Inr joke \<Rightarrow>
                    Inr (joke,
                         s\<lparr>slept := slept s @ [1000000 * ms],
                           jokeLatency := jokeLatency s @ [Milliseconds (Since finish start)],
                           rand := g2\<rparr>))))"

definition notifyAnalytics ::
  "network \<Rightarrow> (string \<rightharpoonup> string) \<Rightarrow> trace_context \<Rightarrow> string \<Rightarrow> jokes_service \<Rightarrow>
   jokes_service"
where
  \<comment> \<open>the goroutine drops the error of \<^verbatim>\<open>http.NewRequest\<close> and sets a header on the
      request, which is nil after an error; otherwise it gives the request to
      \<^verbatim>\<open>client.Do\<close>, whose error is logged and whose response is closed\<close>
  "notifyAnalytics net env ctx joke s =
     (let analyticsService =
            (if Getenv env ''ANALYTICS_SERVICE_URL'' = []
             then ''analytics-service.default.svc.cluster.local''
             else Getenv env ''ANALYTICS_SERVICE_URL'')
      in case NewRequest net ''POST'' (''http://'' @ analyticsService @ ''/internal/track'') of
           Some err \<Rightarrow> s\<lparr>crashing := True\<rparr>
         | None \<Rightarrow>
             s\<lparr>spawned := spawned s @
                 [\<lparr>o_method = ''POST'',
                   o_url = ''http://'' @ analyticsService @ ''/internal/track'',
                   o_body = None,
                   o_headers = [Header ''X-Joke-Length''
                                  (string_of_rune (rune (int (length joke)))),
                                Injected ctx],
                   o_timeout = 2 * Second\<rparr>]\<rparr>)"

definition joke_handler ::
  "network \<Rightarrow> (string \<Rightarrow> Time \<Rightarrow> string) \<Rightarrow> (string \<rightharpoonup> string) \<Rightarrow> trace_context \<Rightarrow>
   Time \<Rightarrow> Time \<Rightarrow> Time \<Rightarrow> jokes_service \<Rightarrow> panic + response \<times> jokes_service"
where
  \<comment> \<open>the handler of \<^verbatim>\<open>GET /api/v1/joke\<close>; \<open>stamp\<close> is the clock reading for the
      response's timestamp\<close>
  "joke_handler net fmt env ctx start finish stamp s =
     (case getRandomJoke start finish s of
        Inl p \<Rightarrow> Inl p
      | Inr (joke, s1) \<Rightarrow>
          (let s2 = s1\<lparr>jokesServed := jokesServed s1 + 1\<rparr>;
               s3 = notifyAnalytics net env ctx joke s2
           in Inr (\<lparr>status = 200,
                     payload = JSON (JObj [(''joke'', JStr joke),
                                           (''service'', JStr ''jokes-service''),
                                           (''timestamp'', JStr (fmt RFC3339 stamp))])\<rparr>,
                   s3)))"

fun jokes_run ::
  "network \<Rightarrow> (string \<Rightarrow> Time \<Rightarrow> string) \<Rightarrow> (string \<rightharpoonup> string) \<Rightarrow>
   (trace_context \<times> Time \<times> Time \<times> Time \<times> bool) list \<Rightarrow> jokes_service \<Rightarrow>
   panic + response list \<times> jokes_service"
where
  \<comment> \<open>the responses that a sequence of requests to \<^verbatim>\<open>GET /api/v1/joke\<close> receives, up to
      the first panic of a handler. Each request has its context, its three clock
      readings, and the scheduler's word \<open>gone\<close>: whether a crashing goroutine has ended
      the process by the time the response of this request would be written. An ended
      process answers nothing any more.\<close>
  "jokes_run net fmt env [] s = Inr ([], s)"
| "jokes_run net fmt env ((ctx, start, finish, stamp, gone) # rest) s =
     (if crashing s \<and> gone then Inr ([], s)
      else case joke_handler net fmt env ctx start finish stamp s of
             Inl p \<Rightarrow> Inl p
           | Inr (r, s1) \<Rightarrow>
               (if crashing s1 \<and> gone then Inr ([], s1)
                else case jokes_run net fmt env rest s1 of
                       Inl p \<Rightarrow> Inl p
                     | Inr (rs, s2) \<Rightarrow> Inr (r # rs, s2)))"

definition notification_url :: "(string \<rightharpoonup> string) \<Rightarrow> string" where
  \<comment> \<open>the URL that \<^verbatim>\<open>notifyAnalytics\<close> builds\<close>
  "notification_url env =
     ''http://''
     @ (if Getenv env ''ANALYTICS_SERVICE_URL'' = []
        then ''analytics-service.default.svc.cluster.local''
        else Getenv env ''ANALYTICS_SERVICE_URL'')
     @ ''/internal/track''"

section \<open>Analytics service\<close>

record Stats =
  requests :: "64 word"
  totalJokes :: "64 word"
    \<comment> \<open>both \<^verbatim>\<open>int64\<close>: \<open>+\<close> wraps, \<open>sint\<close> reads the value\<close>
  lastUpdate :: Time

record analytics_service =
  stats :: Stats
  trackingCount :: int
    \<comment> \<open>the sum of what was added to the counter \<^verbatim>\<open>analytics.tracks\<close>\<close>

definition analytics_start :: "Time \<Rightarrow> analytics_service" where
  \<comment> \<open>the state when \<^verbatim>\<open>main\<close> starts serving: the package-level value
      \<^verbatim>\<open>&Stats{requests: 0, totalJokes: 0}\<close>, after \<^verbatim>\<open>stats.lastUpdate = time.Now()\<close>\<close>
  "analytics_start now =
     \<lparr>stats = \<lparr>requests = 0, totalJokes = 0, lastUpdate = now\<rparr>, trackingCount = 0\<rparr>"

definition trackEvent :: "Time \<Rightarrow> analytics_service \<Rightarrow> analytics_service" where
  "trackEvent now s =
     s\<lparr>stats := \<lparr>requests = requests (stats s) + 1,
                  totalJokes = totalJokes (stats s) + 1,
                  lastUpdate = now\<rparr>,
       trackingCount := trackingCount s + 1\<rparr>"

definition getStats ::
  "(string \<Rightarrow> Time \<Rightarrow> string) \<Rightarrow> Time \<Rightarrow> analytics_service \<Rightarrow> (string \<times> json) list"
where
  \<comment> \<open>\<open>now\<close> is the clock reading inside \<^verbatim>\<open>time.Since(stats.lastUpdate)\<close>\<close>
  "getStats fmt now s =
     [(''total_requests'', JInt (sint (requests (stats s)))),
      (''total_jokes'', JInt (sint (totalJokes (stats s)))),
      (''last_update'', JStr (fmt RFC3339 (lastUpdate (stats s)))),
      (''uptime_seconds'', JSeconds (Since now (lastUpdate (stats s))))]"

datatype analytics_request = GET_healthz | GET_stats | POST_track

fun analytics_handler ::
  "(string \<Rightarrow> Time \<Rightarrow> string) \<Rightarrow> Time \<Rightarrow> analytics_request \<Rightarrow> analytics_service \<Rightarrow>
   response \<times> analytics_service"
where
  "analytics_handler fmt now GET_healthz s =
     (\<lparr>status = 200,
       payload = JSON (JObj [(''status'', JStr ''healthy''),
                             (''service'', JStr ''analytics-service''),
                             (''timestamp'', JStr (fmt RFC3339 now))])\<rparr>, s)"
| "analytics_handler fmt now GET_stats s =
     (\<lparr>status = 200, payload = JSON (JObj (getStats fmt now s))\<rparr>, s)"
| "analytics_handler fmt now POST_track s =
     (\<lparr>status = 200, payload = JSON (JObj [(''status'', JStr ''tracked'')])\<rparr>,
      trackEvent now s)"

fun analytics_run ::
  "(string \<Rightarrow> Time \<Rightarrow> string) \<Rightarrow> (Time \<times> analytics_request) list \<Rightarrow> analytics_service \<Rightarrow>
   analytics_service"
where
  \<comment> \<open>the requests in the order the lock serialises them, each with its clock reading\<close>
  "analytics_run fmt [] s = s"
| "analytics_run fmt ((now, req) # rest) s =
     analytics_run fmt rest (snd (analytics_handler fmt now req s))"

definition tracks :: "(Time \<times> analytics_request) list \<Rightarrow> Time list" where
  \<comment> \<open>the clock readings of the track notifications of a run, oldest first\<close>
  "tracks reqs = map fst (filter (\<lambda>r. snd r = POST_track) reqs)"

section \<open>User service\<close>

datatype 'a slice = NilSlice | Slice "'a list"
  \<comment> \<open>a Go slice: \<^verbatim>\<open>nil\<close>, or allocated with these elements\<close>

fun elems :: "'a slice \<Rightarrow> 'a list" where
  "elems NilSlice = []"
| "elems (Slice xs) = xs"

definition len :: "'a slice \<Rightarrow> int" where
  "len s = int (length (elems s))"

definition append_slice :: "'a slice \<Rightarrow> 'a \<Rightarrow> 'a slice" where
  \<comment> \<open>\<^verbatim>\<open>append(s, x)\<close>: the result is allocated, also when \<open>s\<close> is nil\<close>
  "append_slice s x = Slice (elems s @ [x])"

record Favorite =
  ID :: string
  Joke :: string
  UserID :: string
  CreatedAt :: Time

record FavoriteRequest =
  req_Joke :: string
  req_UserID :: string

record user_service =
  favorites :: "Favorite slice"
  favoritesCount :: int
    \<comment> \<open>the sum of what was added to the counter \<^verbatim>\<open>user.favorites.added\<close>\<close>

definition user_start :: user_service where
  \<comment> \<open>the state when \<^verbatim>\<open>main\<close> starts serving, after \<^verbatim>\<open>favorites = make([]Favorite, 0)\<close>\<close>
  "user_start = \<lparr>favorites = Slice [], favoritesCount = 0\<rparr>"

definition addFavorite ::
  "(string \<Rightarrow> Time \<Rightarrow> string) \<Rightarrow> Time \<Rightarrow> Time \<Rightarrow> FavoriteRequest \<Rightarrow> user_service \<Rightarrow>
   Favorite \<times> user_service"
where
  \<comment> \<open>\<open>now1\<close> and \<open>now2\<close> are the two readings of \<^verbatim>\<open>time.Now()\<close>\<close>
  "addFavorite fmt now1 now2 req s =
     (let fav = \<lparr>ID = fmt ''20060102150405'' now1, Joke = req_Joke req,
                 UserID = req_UserID req, CreatedAt = now2\<rparr>
      in (fav, s\<lparr>favorites := append_slice (favorites s) fav,
                  favoritesCount := favoritesCount s + 1\<rparr>))"

fun getFavorites_loop :: "string \<Rightarrow> Favorite list \<Rightarrow> Favorite slice \<Rightarrow> Favorite slice" where
  \<comment> \<open>\<^verbatim>\<open>for _, fav := range favorites\<close>, with \<^verbatim>\<open>userFavorites\<close> as the accumulator\<close>
  "getFavorites_loop userID [] userFavorites = userFavorites"
| "getFavorites_loop userID (fav # rest) userFavorites =
     getFavorites_loop userID rest
       (if userID = [] \<or> UserID fav = userID then append_slice userFavorites fav
        else userFavorites)"

definition getFavorites :: "string \<Rightarrow> user_service \<Rightarrow> Favorite slice" where
  \<comment> \<open>\<^verbatim>\<open>var userFavorites []Favorite\<close> starts as nil\<close>
  "getFavorites userID s = getFavorites_loop userID (elems (favorites s)) NilSlice"

datatype request_body =
    Undecodable string
    \<comment> \<open>\<^verbatim>\<open>encoding/json\<close> rejects the body, with this message\<close>
  | Members "string option" "string option"
    \<comment> \<open>it decodes; the values it finds for the fields tagged \<^verbatim>\<open>joke\<close> and
        \<^verbatim>\<open>user_id\<close>, if any\<close>

definition required_error :: "string \<Rightarrow> string" where
  \<comment> \<open>the message of the validator for a field that fails \<^verbatim>\<open>binding:"required"\<close>\<close>
  "required_error f =
     ''Key: 'FavoriteRequest.'' @ f @ [CHR 0x27] @ '' Error:Field validation for ''
       @ [CHR 0x27] @ f @ [CHR 0x27] @ '' failed on the 'required' tag''"

definition validate :: "FavoriteRequest \<Rightarrow> string list" where
  \<comment> \<open>\<^verbatim>\<open>required\<close> on a string field fails on the zero value, the empty string\<close>
  "validate req =
     (if req_Joke req = [] then [required_error ''Joke''] else [])
     @ (if req_UserID req = [] then [required_error ''UserID''] else [])"

fun join_lines :: "string list \<Rightarrow> string" where
  "join_lines [] = []"
| "join_lines [x] = x"
| "join_lines (x # y # rest) = x @ [CHR 0x0A] @ join_lines (y # rest)"

definition ShouldBindJSON :: "request_body \<Rightarrow> string + FavoriteRequest" where
  \<comment> \<open>\<^verbatim>\<open>c.ShouldBindJSON(&req)\<close>: decode into the zero-valued struct (a field the body
      does not give stays empty), then validate; \<open>Inl\<close> is \<^verbatim>\<open>err.Error()\<close>\<close>
  "ShouldBindJSON body =
     (case body of
        Undecodable msg \<Rightarrow> Inl msg
      | Members j u \<Rightarrow>
          (let req = \<lparr>req_Joke = (case j of None \<Rightarrow> [] | Some v \<Rightarrow> v),
                      req_UserID = (case u of None \<Rightarrow> [] | Some v \<Rightarrow> v)\<rparr>
           in if validate req = [] then Inr req else Inl (join_lines (validate req))))"

definition RFC3339Nano :: string where
  "RFC3339Nano = ''2006-01-02T15:04:05.999999999Z07:00''"

definition json_of_Favorite :: "(string \<Rightarrow> Time \<Rightarrow> string) \<Rightarrow> Favorite \<Rightarrow> json" where
  "json_of_Favorite fmt fav =
     JObj [(''id'', JStr (ID fav)), (''joke'', JStr (Joke fav)),
           (''user_id'', JStr (UserID fav)),
           (''created_at'', JStr (fmt RFC3339Nano (CreatedAt fav)))]"

fun json_of_slice :: "('a \<Rightarrow> json) \<Rightarrow> 'a slice \<Rightarrow> json" where
  \<comment> \<open>\<^verbatim>\<open>encoding/json\<close> writes a nil slice as \<^verbatim>\<open>null\<close>\<close>
  "json_of_slice f NilSlice = JNull"
| "json_of_slice f (Slice xs) = JArr (map f xs)"

definition favorite_handler ::
  "(string \<Rightarrow> Time \<Rightarrow> string) \<Rightarrow> Time \<Rightarrow> Time \<Rightarrow> request_body \<Rightarrow> user_service \<Rightarrow>
   response \<times> user_service"
where
  \<comment> \<open>the handler of \<^verbatim>\<open>POST /api/v1/favorite\<close>\<close>
  "favorite_handler fmt now1 now2 body s =
     (case ShouldBindJSON body of
        Inl err \<Rightarrow> (\<lparr>status = 400, payload = JSON (JObj [(''error'', JStr err)])\<rparr>, s)
      | Inr req \<Rightarrow>
          (let (favorite, s') = addFavorite fmt now1 now2 req s
           in (\<lparr>status = 201, payload = JSON (json_of_Favorite fmt favorite)\<rparr>, s')))"

definition Query :: "(string \<times> string) list \<Rightarrow> string \<Rightarrow> string" where
  \<comment> \<open>\<^verbatim>\<open>c.Query(key)\<close>: the first value of the key, the empty string when absent\<close>
  "Query q k = (case map_of q k of None \<Rightarrow> [] | Some v \<Rightarrow> v)"

definition favorites_handler ::
  "(string \<Rightarrow> Time \<Rightarrow> string) \<Rightarrow> (string \<times> string) list \<Rightarrow> user_service \<Rightarrow>
   response \<times> user_service"
where
  \<comment> \<open>the handler of \<^verbatim>\<open>GET /api/v1/favorites\<close>\<close>
  "favorites_handler fmt q s =
     (let userID = Query q ''user_id'';
          userFavorites = getFavorites userID s
      in (\<lparr>status = 200,
            payload = JSON (JObj [(''favorites'', json_of_slice (json_of_Favorite fmt) userFavorites),
                                  (''count'', JInt (len userFavorites))])\<rparr>, s))"

fun records :: "json \<Rightarrow> json list" where
  \<comment> \<open>the elements a client finds in a JSON value: those of an array, none otherwise\<close>
  "records (JArr xs) = xs"
| "records _ = []"

section \<open>Gateway\<close>

record inbound =
  i_method :: string
  i_path :: string
    \<comment> \<open>\<^verbatim>\<open>c.Request.URL.Path\<close>\<close>
  i_body :: string
  i_ctx :: trace_context
    \<comment> \<open>\<^verbatim>\<open>c.Request.Context()\<close>\<close>

datatype attr = AStr string | AInt int

datatype instrument = requestCount | requestLatency

datatype measurement =
    Add instrument int "(string \<times> attr) list"
  | Record instrument int "(string \<times> attr) list"

record gateway =
  sent :: "outbound list"
    \<comment> \<open>the requests given to \<^verbatim>\<open>client.Do\<close>, oldest first\<close>
  measured :: "measurement list"
    \<comment> \<open>the calls on the two instruments, oldest first\<close>

record ticks =
  mw_start :: Time
    \<comment> \<open>\<^verbatim>\<open>time.Now()\<close> of the metrics middleware\<close>
  h_now :: Time
    \<comment> \<open>\<^verbatim>\<open>time.Now()\<close> of the handler\<close>
  h_done :: Time
    \<comment> \<open>the reading inside \<^verbatim>\<open>time.Since(start)\<close> of \<^verbatim>\<open>proxyRequest\<close>\<close>
  mw_done :: Time
    \<comment> \<open>the reading inside \<^verbatim>\<open>time.Since(start)\<close> of the middleware\<close>

datatype outcome =
    Written response
    \<comment> \<open>the handler returns, having written this response\<close>
  | Panics panic
    \<comment> \<open>the handler panics; what gin's recovery then answers is not part of the model\<close>

definition bodyAllowedForStatus :: "int \<Rightarrow> bool" where
  \<comment> \<open>gin's test before it writes a body: none for 1xx, 204 and 304\<close>
  "bodyAllowedForStatus code =
     (if 100 \<le> code \<and> code \<le> 199 then False
      else if code = 204 then False
      else if code = 304 then False
      else True)"

definition c_Data :: "int \<Rightarrow> string \<Rightarrow> string \<Rightarrow> outcome" where
  \<comment> \<open>\<^verbatim>\<open>c.Data(code, contentType, data)\<close>. gin's writer starts with status 200 and takes
      \<open>code\<close> only when it is positive; \<^verbatim>\<open>net/http\<close> panics when it is to write a status
      below 100 or above 999; gin writes the header alone where no body is allowed. (An
      informational code other than 101 would go out as an interim response; \<^verbatim>\<open>client.Do\<close>
      never returns one.)\<close>
  "c_Data code contentType data =
     (let st = (if 0 < code then code else 200)
      in if st < 100 \<or> 999 < st then Panics (Panic ''invalid WriteHeader code'')
         else if bodyAllowedForStatus code
         then Written \<lparr>status = st, payload = Data contentType data\<rparr>
         else Written \<lparr>status = st, payload = Data contentType []\<rparr>)"

definition error_body :: "string \<Rightarrow> payload" where
  \<comment> \<open>\<^verbatim>\<open>gin.H{"error": msg}\<close>\<close>
  "error_body msg = JSON (JObj [(''error'', JStr msg)])"

definition proxyRequest ::
  "network \<Rightarrow> ticks \<Rightarrow> inbound \<Rightarrow> string \<Rightarrow> string \<Rightarrow> gateway \<Rightarrow> outcome \<times> gateway"
where
  "proxyRequest net tk c serviceURL path g =
     (let targetURL = ''http://'' @ serviceURL @ path
      in case NewRequest net (i_method c) targetURL of
           Some err \<Rightarrow>
             (Written \<lparr>status = 500, payload = error_body ''Failed to create request''\<rparr>, g)
         | None \<Rightarrow>
             (let req = \<lparr>o_method = i_method c, o_url = targetURL, o_body = Some (i_body c),
                         o_headers = [Injected (i_ctx c),
                                      Header ''Content-Type'' ''application/json''],
                         o_timeout = 10 * Second\<rparr>;
                  g1 = g\<lparr>sent := sent g @ [req]\<rparr>
              in case Do net req of
                   Inl err \<Rightarrow>
                     (Written \<lparr>status = 502, payload = error_body ''Service unavailable''\<rparr>,
                      g1)
                 | Inr resp \<Rightarrow>
                     (let duration = Milliseconds (Since (h_done tk) (h_now tk));
                          g2 = g1\<lparr>measured := measured g1 @
                                 [Record requestLatency duration
                                    [(''service'', AStr serviceURL),
                                     (''status_code'', AInt (StatusCode resp))]]\<rparr>
                      in case Body resp of
                           Inl err \<Rightarrow>
                             (Written \<lparr>status = 500,
                                       payload = error_body ''Failed to read response''\<rparr>, g2)
                         | Inr body \<Rightarrow>
                             (c_Data (StatusCode resp) ''application/json'' body, g2))))"

datatype route = Healthz | Joke_route | Favorite_route | Stats_route | NoRoute
  \<comment> \<open>the handler chain that gin's router selects for a request: one of the four
      registered routes, or the chain for an unknown route\<close>

fun handler ::
  "(string \<Rightarrow> Time \<Rightarrow> string) \<Rightarrow> (string \<rightharpoonup> string) \<Rightarrow> network \<Rightarrow> ticks \<Rightarrow> route \<Rightarrow>
   inbound \<Rightarrow> gateway \<Rightarrow> outcome \<times> gateway"
where
  "handler fmt env net tk Healthz c g =
     (Written \<lparr>status = 200,
               payload = JSON (JObj [(''status'', JStr ''healthy''),
                                     (''service'', JStr ''api-gateway''),
                                     (''timestamp'', JStr (fmt RFC3339 (h_now tk)))])\<rparr>, g)"
| "handler fmt env net tk Joke_route c g =
     (let jokesService =
            (if Getenv env ''JOKES_SERVICE_URL'' = []
             then ''jokes-service.default.svc.cluster.local''
             else Getenv env ''JOKES_SERVICE_URL'')
      in proxyRequest net tk c jokesService ''/api/v1/joke'' g)"
| "handler fmt env net tk Favorite_route c g =
     (let userService =
            (if Getenv env ''USER_SERVICE_URL'' = []
             then ''user-service.default.svc.cluster.local''
             else Getenv env ''USER_SERVICE_URL'')
      in proxyRequest net tk c userService ''/api/v1/favorite'' g)"
| "handler fmt env net tk Stats_route c g =
     (let analyticsService =
            (if Getenv env ''ANALYTICS_SERVICE_URL'' = []
             then ''analytics-service.default.svc.cluster.local''
             else Getenv env ''ANALYTICS_SERVICE_URL'')
      in proxyRequest net tk c analyticsService ''/api/v1/stats'' g)"
| "handler fmt env net tk NoRoute c g =
     (Written \<lparr>status = 404, payload = Data ''text/plain'' ''404 page not found''\<rparr>, g)"

definition middleware ::
  "(string \<Rightarrow> Time \<Rightarrow> string) \<Rightarrow> (string \<rightharpoonup> string) \<Rightarrow> network \<Rightarrow> ticks \<Rightarrow> route \<Rightarrow>
   inbound \<Rightarrow> gateway \<Rightarrow> outcome \<times> gateway"
where
  \<comment> \<open>the metrics middleware around \<^verbatim>\<open>c.Next()\<close>, which runs the handler. What follows
      \<^verbatim>\<open>c.Next()\<close> is not deferred: a panic of the handler passes it by.\<close>
  "middleware fmt env net tk rt c g =
     (case handler fmt env net tk rt c g of
        (Panics p, g1) \<Rightarrow> (Panics p, g1)
      | (Written r, g1) \<Rightarrow>
          (let duration = Milliseconds (Since (mw_done tk) (mw_start tk))
           in (Written r,
               g1\<lparr>measured := measured g1 @
                    [Add requestCount 1
                       [(''method'', AStr (i_method c)), (''path'', AStr (i_path c)),
                        (''status_code'', AInt (status r))],
                     Record requestLatency duration
                       [(''method'', AStr (i_method c)), (''path'', AStr (i_path c))]]\<rparr>)))"

subsection \<open>What the route handlers hand to the proxy\<close>

fun proxied :: "route \<Rightarrow> bool" where
  "proxied Joke_route = True"
| "proxied Favorite_route = True"
| "proxied Stats_route = True"
| "proxied Healthz = False"
| "proxied NoRoute = False"

fun backend_variable :: "route \<Rightarrow> string" where
  \<comment> \<open>the environment variable that configures the backend of a proxied route\<close>
  "backend_variable Joke_route = ''JOKES_SERVICE_URL''"
| "backend_variable Favorite_route = ''USER_SERVICE_URL''"
| "backend_variable Stats_route = ''ANALYTICS_SERVICE_URL''"
| "backend_variable Healthz = []"
| "backend_variable NoRoute = []"

fun backend_default :: "route \<Rightarrow> string" where
  "backend_default Joke_route = ''jokes-service.default.svc.cluster.local''"
| "backend_default Favorite_route = ''user-service.default.svc.cluster.local''"
| "backend_default Stats_route = ''analytics-service.default.svc.cluster.local''"
| "backend_default Healthz = []"
| "backend_default NoRoute = []"

fun backend_path :: "route \<Rightarrow> string" where
  "backend_path Joke_route = ''/api/v1/joke''"
| "backend_path Favorite_route = ''/api/v1/favorite''"
| "backend_path Stats_route = ''/api/v1/stats''"
| "backend_path Healthz = []"
| "backend_path NoRoute = []"

definition backend_base :: "(string \<rightharpoonup> string) \<Rightarrow> route \<Rightarrow> string" where
  \<comment> \<open>the configured base address: the variable, or the default when it is unset or empty\<close>
  "backend_base env rt =
     (if Getenv env (backend_variable rt) = [] then backend_default rt
      else Getenv env (backend_variable rt))"

definition forwarded :: "(string \<rightharpoonup> string) \<Rightarrow> route \<Rightarrow> inbound \<Rightarrow> outbound" where
  \<comment> \<open>the outbound request of a proxied route, as the properties below describe it\<close>
  "forwarded env rt c =
     \<lparr>o_method = i_method c,
      o_url = ''http://'' @ backend_base env rt @ backend_path rt,
      o_body = Some (i_body c),
      o_headers = [Injected (i_ctx c), Header ''Content-Type'' ''application/json''],
      o_timeout = 10000000000\<rparr>"

definition backend_observation ::
  "(string \<rightharpoonup> string) \<Rightarrow> network \<Rightarrow> ticks \<Rightarrow> route \<Rightarrow> inbound \<Rightarrow> measurement list"
where
  \<comment> \<open>the latency observation of a proxied call: one when the backend answered, none
      otherwise\<close>
  "backend_observation env net tk rt c =
     (if proxied rt \<and> NewRequest net (i_method c) (o_url (forwarded env rt c)) = None
      then (case Do net (forwarded env rt c) of
              Inl err \<Rightarrow> []
            | Inr resp \<Rightarrow>
                [Record requestLatency (Milliseconds (Since (h_done tk) (h_now tk)))
                   [(''service'', AStr (backend_base env rt)),
                    (''status_code'', AInt (StatusCode resp))]])
      else [])"

section \<open>Concrete scenarios\<close>

definition layout_only :: "string \<Rightarrow> Time \<Rightarrow> string" where
  \<comment> \<open>a stand-in for \<^verbatim>\<open>Time.Format\<close> that prints the layout\<close>
  "layout_only layout t = layout"

definition source_a :: rng where
  "source_a = \<lparr>draws = (\<lambda>i. 7 * i + 3), pos = 0\<rparr>"

definition no_env :: "string \<rightharpoonup> string" where
  "no_env = Map.empty"

definition jokes_env :: "string \<rightharpoonup> string" where
  "jokes_env = [''JOKES_SERVICE_URL'' \<mapsto> ''jokes:8081'']"

definition two_requests :: "(trace_context \<times> Time \<times> Time \<times> Time \<times> bool) list" where
  "two_requests =
     [(''trace-1'', 0, 5000000, 6000000, False), (''trace-2'', 7000000, 9000000, 9500000, True)]"

definition mixed_requests :: "(Time \<times> analytics_request) list" where
  "mixed_requests =
     [(1000000000, POST_track), (2000000000, GET_stats), (3000000000, POST_track),
      (4000000000, GET_healthz), (5000000000, POST_track)]"

definition fav_a :: Favorite where
  "fav_a = \<lparr>ID = ''20240102030405'', Joke = ''x'', UserID = ''u1'', CreatedAt = 1\<rparr>"

definition fav_b :: Favorite where
  "fav_b = \<lparr>ID = ''20240102030406'', Joke = ''y'', UserID = ''u2'', CreatedAt = 2\<rparr>"

definition fav_c :: Favorite where
  "fav_c = \<lparr>ID = ''20240102030406'', Joke = ''z'', UserID = ''u1'', CreatedAt = 3\<rparr>"

definition three_favorites :: user_service where
  "three_favorites = \<lparr>favorites = Slice [fav_a, fav_b, fav_c], favoritesCount = 3\<rparr>"

definition some_ticks :: ticks where
  "some_ticks = \<lparr>mw_start = 0, h_now = 1000000, h_done = 8000000, mw_done = 9500000\<rparr>"

definition get_joke :: inbound where
  "get_joke = \<lparr>i_method = ''GET'', i_path = ''/api/v1/joke'', i_body = [], i_ctx = ''trace-1''\<rparr>"

definition get_healthz :: inbound where
  "get_healthz = \<lparr>i_method = ''GET'', i_path = ''/healthz'', i_body = [], i_ctx = ''trace-2''\<rparr>"

definition net_invalid :: network where
  "net_invalid = \<lparr>NewRequest = (\<lambda>m u. Some ''invalid URL''), Do = (\<lambda>r. Inl ''not called'')\<rparr>"

definition net_down :: network where
  "net_down = \<lparr>NewRequest = (\<lambda>m u. None), Do = (\<lambda>r. Inl ''connection refused'')\<rparr>"

definition net_unreadable :: network where
  "net_unreadable =
     \<lparr>NewRequest = (\<lambda>m u. None),
      Do = (\<lambda>r. Inr \<lparr>StatusCode = 200, Body = Inl ''unexpected EOF''\<rparr>)\<rparr>"

definition net_ok :: network where
  "net_ok =
     \<lparr>NewRequest = (\<lambda>m u. None),
      Do = (\<lambda>r. Inr \<lparr>StatusCode = 201, Body = Inr ''created''\<rparr>)\<rparr>"


definition net_low :: network where
  "net_low =
     \<lparr>NewRequest = (\<lambda>m u. None),
      Do = (\<lambda>r. Inr \<lparr>StatusCode = 99, Body = Inr ''low''\<rparr>)\<rparr>"

definition idle_gateway :: gateway where
  "idle_gateway = \<lparr>sent = [], measured = []\<rparr>"

section \<open>Properties of the Jokes service\<close>

lemma Intn_in_range: "0 < n \<Longrightarrow> \<exists>i g'. Intn n g = Inr (i, g') \<and> 0 \<le> i \<and> i < n"
  by (simp add: Intn_def)

lemma jokes_not_empty: "jokes \<noteq> []"
  by (simp add: jokes_def)

lemma getRandomJoke_on_nonempty:
  assumes "jokes_var s \<noteq> []"
  shows "\<exists>j s'. getRandomJoke start finish s = Inr (j, s') \<and> j \<in> set (jokes_var s)
      \<and> jokes_var s' = jokes_var s \<and> crashing s' = crashing s"
proof -
  obtain ms g1 where a: "Intn 50 (rand s) = Inr (ms, g1)"
    using Intn_in_range [of 50 "rand s"] by auto
  have "0 < int (length (jokes_var s))"
    using assms by simp
  then obtain i g2 where b: "Intn (int (length (jokes_var s))) g1 = Inr (i, g2)"
    and i: "0 \<le> i" "i < int (length (jokes_var s))"
    using Intn_in_range [of "int (length (jokes_var s))" g1] by auto
  have c: "index (jokes_var s) i = Inr (jokes_var s ! nat i)"
    using i by (simp add: index_def)
  have "jokes_var s ! nat i \<in> set (jokes_var s)"
    using i by (intro nth_mem) linarith
  then show ?thesis
    by (simp add: getRandomJoke_def a b c)
qed

lemma getRandomJoke_on_empty:
  assumes "jokes_var s = []"
  shows "getRandomJoke start finish s = Inl (Panic ''invalid argument to Intn'')"
proof -
  obtain ms g1 where a: "Intn 50 (rand s) = Inr (ms, g1)"
    using Intn_in_range [of 50 "rand s"] by auto
  show ?thesis
    by (simp add: getRandomJoke_def a assms Intn_def)
qed

lemma notifyAnalytics_keeps_jokes: "jokes_var (notifyAnalytics net env ctx joke s) = jokes_var s"
  by (simp add: notifyAnalytics_def Let_def split: option.splits)

lemma notifyAnalytics_parsed:
  "NewRequest net ''POST'' (notification_url env) = None \<Longrightarrow>
   crashing (notifyAnalytics net env ctx joke s) = crashing s"
  by (simp add: notifyAnalytics_def notification_url_def Let_def)

lemma joke_handler_serves_member:
  assumes "jokes_var s = jokes"
  shows "\<exists>j r s'. joke_handler net fmt env ctx start finish stamp s = Inr (r, s')
       \<and> status r = 200 \<and> field ''joke'' r = Some (JStr j) \<and> j \<in> set jokes
       \<and> jokes_var s' = jokes
       \<and> (NewRequest net ''POST'' (notification_url env) = None \<longrightarrow> crashing s' = crashing s)"
proof -
  from assms have "jokes_var s \<noteq> []"
    by (simp add: jokes_not_empty)
  then obtain j s1 where a: "getRandomJoke start finish s = Inr (j, s1)"
    and j: "j \<in> set jokes" and s1: "jokes_var s1 = jokes" and c1: "crashing s1 = crashing s"
    using getRandomJoke_on_nonempty [of s start finish] assms by auto
  show ?thesis
    by (simp add: joke_handler_def a Let_def notifyAnalytics_keeps_jokes
        notifyAnalytics_parsed s1 j c1)
qed

lemma jokes_run_serves_members:
  assumes "jokes_var s = jokes"
  shows "\<exists>rs s'. jokes_run net fmt env reqs s = Inr (rs, s') \<and> length rs \<le> length reqs
       \<and> (\<forall>r \<in> set rs. status r = 200 \<and> (\<exists>j \<in> set jokes. field ''joke'' r = Some (JStr j)))
       \<and> jokes_var s' = jokes
       \<and> (NewRequest net ''POST'' (notification_url env) = None \<and> \<not> crashing s \<longrightarrow>
            length rs = length reqs \<and> \<not> crashing s')"
  using assms
proof (induction reqs arbitrary: s)
  case Nil
  then show ?case by simp
next
  case (Cons q reqs)
  obtain ctx start finish stamp gone where q: "q = (ctx, start, finish, stamp, gone)"
    by (cases q) auto
  obtain j r s1 where h: "joke_handler net fmt env ctx start finish stamp s = Inr (r, s1)"
    "status r = 200" "field ''joke'' r = Some (JStr j)" "j \<in> set jokes" "jokes_var s1 = jokes"
    "NewRequest net ''POST'' (notification_url env) = None \<longrightarrow> crashing s1 = crashing s"
    using joke_handler_serves_member [OF Cons.prems, where net = net and fmt = fmt and env = env
        and ctx = ctx and start = start and finish = finish and stamp = stamp]
    by (elim exE conjE) (rule that)
  obtain rs s2 where t: "jokes_run net fmt env reqs s1 = Inr (rs, s2)" "length rs \<le> length reqs"
    "\<forall>r \<in> set rs. status r = 200 \<and> (\<exists>j \<in> set jokes. field ''joke'' r = Some (JStr j))"
    "jokes_var s2 = jokes"
    "NewRequest net ''POST'' (notification_url env) = None \<and> \<not> crashing s1 \<longrightarrow>
       length rs = length reqs \<and> \<not> crashing s2"
    using Cons.IH [OF h(5)] by (elim exE conjE) (rule that)
  show ?case
  proof (cases "crashing s \<and> gone")
    case True
    then show ?thesis
      using Cons.prems by (simp add: q)
  next
    case False
    note alive = this
    show ?thesis
    proof (cases "crashing s1 \<and> gone")
      case True
      then show ?thesis
        using alive h by (auto simp: q)
    next
      case False
      then show ?thesis
        using alive h t by (auto simp: q)
    qed
  qed
qed

text \<open>
  C1. Whatever the random source, the environment, the clock, the scheduler and the
  outcome of building the notification, no handler of \<^verbatim>\<open>GET /api/v1/joke\<close> panics in a
  run from the start state, and every response the run gives has status 200 and a
  \<open>joke\<close> field whose text is a member of the fixed list \<^const>\<open>jokes\<close>; the package-level
  list is still that list afterwards. A request stays without a response only when a
  notification goroutine has ended the process, which takes a notification URL that
  does not parse: when it parses, every request is answered.
\<close>

theorem served_joke_in_list:
  "\<exists>rs s'. jokes_run net fmt env reqs (jokes_start g) = Inr (rs, s')
     \<and> length rs \<le> length reqs
     \<and> (\<forall>r \<in> set rs. status r = 200 \<and> (\<exists>j \<in> set jokes. field ''joke'' r = Some (JStr j)))
     \<and> jokes_var s' = jokes
     \<and> (NewRequest net ''POST'' (notification_url env) = None \<longrightarrow> length rs = length reqs)"
  using jokes_run_serves_members [of "jokes_start g" net fmt env reqs]
  by (auto simp: jokes_start_def)

text \<open>
  Two requests in a row. With a notification URL that parses: two answers, each with a
  joke of the list. With one that does not parse, and the process ended before the
  second response: one answer, with a joke of the list.
\<close>

theorem served_joke_in_list_witness:
  "NewRequest net_ok ''POST'' (notification_url no_env) = None
   \<and> (\<exists>rs s'. jokes_run net_ok layout_only no_env two_requests (jokes_start source_a)
                  = Inr (rs, s')
         \<and> length rs = 2
         \<and> (\<forall>r \<in> set rs. status r = 200
               \<and> (\<exists>j \<in> set jokes. field ''joke'' r = Some (JStr j)))
         \<and> jokes_var s' = jokes)
   \<and> NewRequest net_invalid ''POST'' (notification_url no_env) = Some ''invalid URL''
   \<and> (\<exists>r s'. jokes_run net_invalid layout_only no_env two_requests (jokes_start source_a)
                 = Inr ([r], s')
         \<and> crashing s' \<and> status r = 200 \<and> field ''joke'' r = Some (JStr (jokes ! 2)))"
proof -
  have p: "NewRequest net_ok ''POST'' (notification_url no_env) = None"
    by (simp add: net_ok_def)
  have l: "length two_requests = 2"
    by (simp add: two_requests_def)
  have a: "\<exists>rs s'. jokes_run net_ok layout_only no_env two_requests (jokes_start source_a)
                  = Inr (rs, s')
         \<and> length rs = 2
         \<and> (\<forall>r \<in> set rs. status r = 200
               \<and> (\<exists>j \<in> set jokes. field ''joke'' r = Some (JStr j)))
         \<and> jokes_var s' = jokes"
    using served_joke_in_list [where net = net_ok and fmt = layout_only and env = no_env
        and reqs = two_requests and g = source_a] p l
    by auto
  have q: "NewRequest net_invalid ''POST'' (notification_url no_env) = Some ''invalid URL''"
    by (simp add: net_invalid_def)
  have b: "\<exists>r s'. jokes_run net_invalid layout_only no_env two_requests (jokes_start source_a)
                 = Inr ([r], s')
         \<and> crashing s' \<and> status r = 200 \<and> field ''joke'' r = Some (JStr (jokes ! 2))"
    by (simp add: two_requests_def jokes_start_def joke_handler_def getRandomJoke_def Intn_def
        index_def source_a_def notifyAnalytics_def net_invalid_def Let_def jokes_def)
  show ?thesis
    using p a q b by blast
qed

text \<open>
  C8. With an empty list the selection fails for every random source and every clock
  reading, and with the same value: \<^verbatim>\<open>rand.Intn(0)\<close> panics, since the range \<open>[0, 0)\<close>
  of indices is empty, and no guard comes before it. With a non-empty list the
  selection returns an element of the list. The list \<^verbatim>\<open>main\<close> starts with is not empty.
\<close>

theorem empty_list_selection_fails:
  "(jokes_var s = [] \<longrightarrow>
      getRandomJoke start finish s = Inl (Panic ''invalid argument to Intn''))
   \<and> (jokes_var s \<noteq> [] \<longrightarrow>
      (\<exists>j s'. getRandomJoke start finish s = Inr (j, s') \<and> j \<in> set (jokes_var s)))
   \<and> jokes_var (jokes_start g) \<noteq> []"
  using getRandomJoke_on_empty [of s start finish] getRandomJoke_on_nonempty [of s start finish]
  by (auto simp: jokes_start_def jokes_not_empty)

text \<open>The start state with its list emptied, and the start state as it is.\<close>

theorem empty_list_selection_fails_witness:
  "jokes_var ((jokes_start source_a)\<lparr>jokes_var := []\<rparr>) = []
   \<and> getRandomJoke 0 5000000 ((jokes_start source_a)\<lparr>jokes_var := []\<rparr>)
       = Inl (Panic ''invalid argument to Intn'')
   \<and> jokes_var (jokes_start source_a) \<noteq> []
   \<and> (\<exists>j s'. getRandomJoke 0 5000000 (jokes_start source_a) = Inr (j, s')
         \<and> j \<in> set (jokes_var (jokes_start source_a)))"
  using empty_list_selection_fails [where s = "(jokes_start source_a)\<lparr>jokes_var := []\<rparr>"
      and start = 0 and finish = 5000000 and g = source_a]
    empty_list_selection_fails [where s = "jokes_start source_a"
      and start = 0 and finish = 5000000 and g = source_a]
  by simp
section \<open>Properties of the Analytics service\<close>

lemma handler_requests:
  "requests (stats (snd (analytics_handler fmt now req s))) =
     requests (stats s) + (if req = POST_track then 1 else 0)"
  by (cases req) (simp_all add: trackEvent_def)

lemma handler_totalJokes:
  "totalJokes (stats (snd (analytics_handler fmt now req s))) =
     totalJokes (stats s) + (if req = POST_track then 1 else 0)"
  by (cases req) (simp_all add: trackEvent_def)

lemma handler_lastUpdate:
  "lastUpdate (stats (snd (analytics_handler fmt now req s))) =
     (if req = POST_track then now else lastUpdate (stats s))"
  by (cases req) (simp_all add: trackEvent_def)

lemma run_requests:
  "requests (stats (analytics_run fmt reqs s))
     = requests (stats s) + of_nat (length (tracks reqs))"
proof (induction reqs arbitrary: s)
  case Nil
  then show ?case by (simp add: tracks_def)
next
  case (Cons q reqs)
  obtain now req where q: "q = (now, req)"
    by (cases q) auto
  show ?case
    by (simp add: q Cons.IH handler_requests tracks_def)
qed

lemma run_totalJokes:
  "totalJokes (stats (analytics_run fmt reqs s))
     = totalJokes (stats s) + of_nat (length (tracks reqs))"
proof (induction reqs arbitrary: s)
  case Nil
  then show ?case by (simp add: tracks_def)
next
  case (Cons q reqs)
  obtain now req where q: "q = (now, req)"
    by (cases q) auto
  show ?case
    by (simp add: q Cons.IH handler_totalJokes tracks_def)
qed

lemma run_lastUpdate:
  "lastUpdate (stats (analytics_run fmt reqs s)) =
     (if tracks reqs = [] then lastUpdate (stats s) else last (tracks reqs))"
proof (induction reqs arbitrary: s)
  case Nil
  then show ?case by (simp add: tracks_def)
next
  case (Cons q reqs)
  obtain now req where q: "q = (now, req)"
    by (cases q) auto
  show ?case
    by (simp add: q Cons.IH handler_lastUpdate tracks_def)
qed

lemma sint_of_small_nat: "n < 2 ^ 63 \<Longrightarrow> sint (of_nat n :: 64 word) = int n"
proof -
  assume n: "n < 2 ^ 63"
  have "sint (of_nat n :: 64 word) = signed_take_bit 63 (int n)"
    using sint_sbintrunc' [of "int n", where 'a = 64] by simp
  also have "\<dots> = int n"
    using n by (intro signed_take_bit_int_eq_self) simp_all
  finally show ?thesis .
qed

text \<open>
  C2. In every state reachable from the start state, whatever the requests, \<open>requests\<close>
  and \<open>totalJokes\<close> are equal: each track notification adds 1 to both and nothing else
  changes them. When the run holds \<open>N\<close> track notifications, a following
  \<^verbatim>\<open>GET /api/v1/stats\<close> reports \<open>total_requests\<close> and \<open>total_jokes\<close> as \<open>N\<close>, for
  every \<open>N\<close> in the range of the \<^verbatim>\<open>int64\<close> counters, \<open>N < 2 ^ 63\<close>.
\<close>

theorem track_counts_below_wrap:
  "requests (stats (analytics_run fmt reqs (analytics_start t0)))
     = totalJokes (stats (analytics_run fmt reqs (analytics_start t0)))
   \<and> (length (tracks reqs) < 2 ^ 63 \<longrightarrow>
        field ''total_requests''
          (fst (analytics_handler fmt now GET_stats (analytics_run fmt reqs (analytics_start t0))))
          = Some (JInt (int (length (tracks reqs))))
        \<and> field ''total_jokes''
          (fst (analytics_handler fmt now GET_stats (analytics_run fmt reqs (analytics_start t0))))
          = Some (JInt (int (length (tracks reqs)))))"
  by (simp add: run_requests run_totalJokes getStats_def analytics_start_def sint_of_small_nat)

text \<open>Three notifications among five requests: both fields are 3.\<close>

theorem track_counts_below_wrap_witness:
  "length (tracks mixed_requests) < 2 ^ 63
   \<and> length (tracks mixed_requests) = 3
   \<and> field ''total_requests''
        (fst (analytics_handler layout_only 9000000000 GET_stats
               (analytics_run layout_only mixed_requests (analytics_start 0))))
        = Some (JInt 3)
   \<and> field ''total_jokes''
        (fst (analytics_handler layout_only 9000000000 GET_stats
               (analytics_run layout_only mixed_requests (analytics_start 0))))
        = Some (JInt 3)"
proof -
  have "tracks mixed_requests = [1000000000, 3000000000, 5000000000]"
    by (simp add: tracks_def mixed_requests_def)
  then show ?thesis
    using track_counts_below_wrap [where fmt = layout_only and reqs = mixed_requests
        and ?t0.0 = 0 and now = 9000000000]
    by simp
qed

text \<open>
  C6, amended. \<^verbatim>\<open>GET /api/v1/stats\<close> answers with the stored \<open>requests\<close> and
  \<open>totalJokes\<close>, the stored \<open>lastUpdate\<close> in the layout RFC3339, and as
  \<open>uptime_seconds\<close> the seconds of \<^verbatim>\<open>time.Since(lastUpdate)\<close>, which is the clock reading
  minus \<open>lastUpdate\<close> while that fits a \<^verbatim>\<open>Duration\<close>. The stored \<open>lastUpdate\<close> is the
  time of the most recent track notification once there has been one; before the first
  one it is the time \<^verbatim>\<open>main\<close> stored when the process started.
\<close>

theorem stats_uptime_since_lastUpdate:
  "status (fst (analytics_handler fmt now GET_stats s)) = 200
   \<and> field ''total_requests'' (fst (analytics_handler fmt now GET_stats s))
       = Some (JInt (sint (requests (stats s))))
   \<and> field ''total_jokes'' (fst (analytics_handler fmt now GET_stats s))
       = Some (JInt (sint (totalJokes (stats s))))
   \<and> field ''last_update'' (fst (analytics_handler fmt now GET_stats s))
       = Some (JStr (fmt RFC3339 (lastUpdate (stats s))))
   \<and> field ''uptime_seconds'' (fst (analytics_handler fmt now GET_stats s))
       = Some (JSeconds (Since now (lastUpdate (stats s))))
   \<and> (minDuration \<le> now - lastUpdate (stats s) \<and> now - lastUpdate (stats s) \<le> maxDuration \<longrightarrow>
        Since now (lastUpdate (stats s)) = now - lastUpdate (stats s))
   \<and> lastUpdate (stats (analytics_run fmt reqs (analytics_start t0)))
       = (if tracks reqs = [] then t0 else last (tracks reqs))"
  by (simp add: run_lastUpdate getStats_def analytics_start_def Since_def Sub_def)

text \<open>
  Started at second 0, last notified at second 5, asked at second 9: the uptime is 4
  seconds.
\<close>

theorem stats_uptime_since_lastUpdate_witness:
  "lastUpdate (stats (analytics_run layout_only mixed_requests (analytics_start 0))) = 5000000000
   \<and> minDuration \<le> 9000000000 - 5000000000 \<and> 9000000000 - 5000000000 \<le> maxDuration
   \<and> field ''uptime_seconds''
        (fst (analytics_handler layout_only 9000000000 GET_stats
               (analytics_run layout_only mixed_requests (analytics_start 0))))
        = Some (JSeconds 4000000000)"
proof -
  have "tracks mixed_requests = [1000000000, 3000000000, 5000000000]"
    by (simp add: tracks_def mixed_requests_def)
  note tr = this
  let ?s = "analytics_run layout_only mixed_requests (analytics_start 0)"
  note t = stats_uptime_since_lastUpdate [where fmt = layout_only and now = 9000000000
      and s = ?s and reqs = mixed_requests and ?t0.0 = 0]
  have l: "lastUpdate (stats ?s) = 5000000000"
    using t tr by simp
  have u: "field ''uptime_seconds'' (fst (analytics_handler layout_only 9000000000 GET_stats ?s))
             = Some (JSeconds (Since 9000000000 (lastUpdate (stats ?s))))"
    using t by blast
  have "minDuration \<le> 9000000000 - lastUpdate (stats ?s)
          \<and> 9000000000 - lastUpdate (stats ?s) \<le> maxDuration
        \<longrightarrow> Since 9000000000 (lastUpdate (stats ?s)) = 9000000000 - lastUpdate (stats ?s)"
    using t by blast
  then have d: "Since 9000000000 5000000000 = 4000000000"
    by (simp add: l minDuration_def maxDuration_def)
  show ?thesis
    by (simp only: u d l) (simp add: minDuration_def maxDuration_def)
qed

text \<open>
  Started at second 2 and asked at second 5 with no notification in between: the uptime
  is the 3 seconds since the process started.
\<close>

theorem stats_uptime_before_first_track_counterexample:
  "tracks [] = []
   \<and> field ''uptime_seconds''
       (fst (analytics_handler layout_only 5000000000 GET_stats
              (analytics_run layout_only [] (analytics_start 2000000000))))
       = Some (JSeconds (5000000000 - 2000000000))"
  by (simp add: getStats_def analytics_start_def Since_def Sub_def tracks_def
      maxDuration_def minDuration_def)

section \<open>Properties of the User service\<close>

lemma validate_rejects:
  "req_Joke req = [] \<or> req_UserID req = [] \<Longrightarrow> validate req \<noteq> []"
  by (auto simp: validate_def)

lemma loop_elems:
  "elems (getFavorites_loop X favs acc)
     = elems acc @ filter (\<lambda>fav. X = [] \<or> UserID fav = X) favs"
  by (induction favs arbitrary: acc) (simp_all add: append_slice_def)

lemma loop_without_match:
  "filter (\<lambda>fav. X = [] \<or> UserID fav = X) favs = [] \<Longrightarrow> getFavorites_loop X favs acc = acc"
  by (induction favs arbitrary: acc) (simp_all split: if_splits)

lemma records_of_slice: "records (json_of_slice f sl) = map f (elems sl)"
  by (cases sl) simp_all

text \<open>
  C3. When the body of \<^verbatim>\<open>POST /api/v1/favorite\<close> gives no \<open>joke\<close>, an empty \<open>joke\<close>, no
  \<open>user_id\<close> or an empty \<open>user_id\<close>, the binding fails with the validator's message, the
  answer is 400 with that message as its \<open>error\<close>, and the state is the one before the
  call: the favorites have the same elements and the counter the same value.
\<close>

theorem invalid_favorite_rejected:
  assumes "j = None \<or> j = Some [] \<or> u = None \<or> u = Some []"
  shows "\<exists>msg. ShouldBindJSON (Members j u) = Inl msg
       \<and> msg = join_lines (validate \<lparr>req_Joke = (case j of None \<Rightarrow> [] | Some v \<Rightarrow> v),
                                      req_UserID = (case u of None \<Rightarrow> [] | Some v \<Rightarrow> v)\<rparr>)
       \<and> fst (favorite_handler fmt now1 now2 (Members j u) s)
           = \<lparr>status = 400, payload = JSON (JObj [(''error'', JStr msg)])\<rparr>
       \<and> snd (favorite_handler fmt now1 now2 (Members j u) s) = s
       \<and> elems (favorites (snd (favorite_handler fmt now1 now2 (Members j u) s)))
           = elems (favorites s)
       \<and> favoritesCount (snd (favorite_handler fmt now1 now2 (Members j u) s))
           = favoritesCount s"
proof -
  let ?req = "\<lparr>req_Joke = (case j of None \<Rightarrow> [] | Some v \<Rightarrow> v),
               req_UserID = (case u of None \<Rightarrow> [] | Some v \<Rightarrow> v)\<rparr>"
  have "req_Joke ?req = [] \<or> req_UserID ?req = []"
    using assms by auto
  then have "validate ?req \<noteq> []"
    by (rule validate_rejects)
  then have b: "ShouldBindJSON (Members j u) = Inl (join_lines (validate ?req))"
    by (simp add: ShouldBindJSON_def Let_def)
  show ?thesis
    by (simp add: b favorite_handler_def)
qed

text \<open>An empty \<open>joke\<close> with a user, and a joke with no \<open>user_id\<close>, on three favorites.\<close>

theorem invalid_favorite_rejected_witness:
  "favorite_handler layout_only 1 2 (Members (Some []) (Some ''u1'')) three_favorites
     = (\<lparr>status = 400, payload = JSON (JObj [(''error'', JStr (required_error ''Joke''))])\<rparr>,
        three_favorites)
   \<and> favorite_handler layout_only 1 2 (Members (Some ''x'') None) three_favorites
     = (\<lparr>status = 400, payload = JSON (JObj [(''error'', JStr (required_error ''UserID''))])\<rparr>,
        three_favorites)"
  using invalid_favorite_rejected [where j = "Some []" and u = "Some ''u1''"
      and fmt = layout_only and ?now1.0 = 1 and ?now2.0 = 2 and s = three_favorites]
    invalid_favorite_rejected [where j = "Some ''x''" and u = None
      and fmt = layout_only and ?now1.0 = 1 and ?now2.0 = 2 and s = three_favorites]
  by (simp add: validate_def prod_eq_iff)

text \<open>
  C5. \<^verbatim>\<open>GET /api/v1/favorites\<close> answers 200 and leaves the state as it is. With a
  non-empty \<open>user_id\<close> the records of its \<open>favorites\<close> field are the stored favorites
  with that \<open>UserID\<close>, and with an empty or absent \<open>user_id\<close> all the stored favorites,
  in both cases in the stored order; \<open>count\<close> is the number of these records. The
  stored order is the order of insertion: adding a favorite puts it last.
\<close>

theorem favorites_filtered_in_order:
  "\<exists>js. field ''favorites'' (fst (favorites_handler fmt q s)) = Some js
     \<and> field ''count'' (fst (favorites_handler fmt q s)) = Some (JInt (int (length (records js))))
     \<and> (Query q ''user_id'' \<noteq> [] \<longrightarrow>
          records js = map (json_of_Favorite fmt)
                         (filter (\<lambda>fav. UserID fav = Query q ''user_id'') (elems (favorites s))))
     \<and> (Query q ''user_id'' = [] \<longrightarrow>
          records js = map (json_of_Favorite fmt) (elems (favorites s)))
     \<and> status (fst (favorites_handler fmt q s)) = 200
     \<and> snd (favorites_handler fmt q s) = s
     \<and> elems (favorites (snd (addFavorite fmt now1 now2 req s)))
         = elems (favorites s) @ [fst (addFavorite fmt now1 now2 req s)]"
  by (simp add: favorites_handler_def Let_def records_of_slice getFavorites_def loop_elems
      len_def addFavorite_def append_slice_def)

text \<open>Three favorites of two users: filtered by the first user, then unfiltered.\<close>

theorem favorites_filtered_in_order_witness:
  "Query [(''user_id'', ''u1'')] ''user_id'' \<noteq> []
   \<and> Query [] ''user_id'' = []
   \<and> field ''favorites'' (fst (favorites_handler layout_only [(''user_id'', ''u1'')] three_favorites))
       = Some (JArr [json_of_Favorite layout_only fav_a, json_of_Favorite layout_only fav_c])
   \<and> field ''count'' (fst (favorites_handler layout_only [(''user_id'', ''u1'')] three_favorites))
       = Some (JInt 2)
   \<and> field ''favorites'' (fst (favorites_handler layout_only [] three_favorites))
       = Some (JArr [json_of_Favorite layout_only fav_a, json_of_Favorite layout_only fav_b,
                     json_of_Favorite layout_only fav_c])
   \<and> field ''count'' (fst (favorites_handler layout_only [] three_favorites)) = Some (JInt 3)"
  using favorites_filtered_in_order [where q = "[(''user_id'', ''u1'')]" and fmt = layout_only
      and s = three_favorites]
    favorites_filtered_in_order [where q = "[]" and fmt = layout_only and s = three_favorites]
  by (simp add: Query_def favorites_handler_def getFavorites_def three_favorites_def
      fav_a_def fav_b_def fav_c_def append_slice_def len_def Let_def)

text \<open>
  C10. When no stored favorite matches the query, which includes the empty sequence,
  \<^verbatim>\<open>GET /api/v1/favorites\<close> answers 200 with \<open>count\<close> 0 and with \<open>favorites\<close> the JSON
  \<open>null\<close>, not an empty array: the accumulating slice is still nil.
\<close>

theorem no_match_gives_null:
  assumes "filter (\<lambda>fav. Query q ''user_id'' = [] \<or> UserID fav = Query q ''user_id'')
             (elems (favorites s)) = []"
  shows "status (fst (favorites_handler fmt q s)) = 200
       \<and> field ''count'' (fst (favorites_handler fmt q s)) = Some (JInt 0)
       \<and> field ''favorites'' (fst (favorites_handler fmt q s)) = Some JNull
       \<and> field ''favorites'' (fst (favorites_handler fmt q s)) \<noteq> Some (JArr [])
       \<and> getFavorites (Query q ''user_id'') s = NilSlice"
  by (simp add: favorites_handler_def Let_def getFavorites_def loop_without_match [OF assms]
      len_def)

text \<open>A user without favorites among three favorites, and the empty start state.\<close>

theorem no_match_gives_null_witness:
  "filter (\<lambda>fav. Query [(''user_id'', ''u9'')] ''user_id'' = []
                  \<or> UserID fav = Query [(''user_id'', ''u9'')] ''user_id'')
     (elems (favorites three_favorites)) = []
   \<and> filter (\<lambda>fav. Query [] ''user_id'' = [] \<or> UserID fav = Query [] ''user_id'')
       (elems (favorites user_start)) = []
   \<and> fst (favorites_handler layout_only [(''user_id'', ''u9'')] three_favorites)
       = \<lparr>status = 200, payload = JSON (JObj [(''favorites'', JNull), (''count'', JInt 0)])\<rparr>
   \<and> fst (favorites_handler layout_only [] user_start)
       = \<lparr>status = 200, payload = JSON (JObj [(''favorites'', JNull), (''count'', JInt 0)])\<rparr>"
  using no_match_gives_null [where q = "[(''user_id'', ''u9'')]" and s = three_favorites
      and fmt = layout_only]
    no_match_gives_null [where q = "[]" and s = user_start and fmt = layout_only]
  by (simp add: Query_def favorites_handler_def getFavorites_def three_favorites_def
      fav_a_def fav_b_def fav_c_def user_start_def len_def Let_def)

section \<open>Properties of the Gateway\<close>



lemma c_Data_panics_iff:
  "(\<exists>p. c_Data code ct body = Panics p) \<longleftrightarrow> (1 \<le> code \<and> code \<le> 99) \<or> 999 < code"
  by (auto simp: c_Data_def Let_def split: if_splits)


lemma handler_proxied:
  "proxied rt \<Longrightarrow>
   handler fmt env net tk rt c g = proxyRequest net tk c (backend_base env rt) (backend_path rt) g"
  by (cases rt) (simp_all add: backend_base_def Let_def)

lemma ten_seconds: "10 * Second = 10000000000"
  by (simp add: Second_def)

lemma proxy_not_built:
  assumes "NewRequest net (i_method c) (''http://'' @ base @ path) = Some e"
  shows "proxyRequest net tk c base path g
     = (Written \<lparr>status = 500, payload = error_body ''Failed to create request''\<rparr>, g)"
  using assms by (simp add: proxyRequest_def Let_def)

lemma proxy_built:
  assumes "NewRequest net (i_method c) (''http://'' @ base @ path) = None"
  shows "proxyRequest net tk c base path g =
     (let req = \<lparr>o_method = i_method c, o_url = ''http://'' @ base @ path,
                 o_body = Some (i_body c),
                 o_headers = [Injected (i_ctx c), Header ''Content-Type'' ''application/json''],
                 o_timeout = 10000000000\<rparr>
      in case Do net req of
           Inl err \<Rightarrow> (Written \<lparr>status = 502, payload = error_body ''Service unavailable''\<rparr>,
                       g\<lparr>sent := sent g @ [req]\<rparr>)
         | Inr resp \<Rightarrow>
             (case Body resp of
                Inl err \<Rightarrow>
                  Written \<lparr>status = 500, payload = error_body ''Failed to read response''\<rparr>
              | Inr body \<Rightarrow> c_Data (StatusCode resp) ''application/json'' body,
              g\<lparr>sent := sent g @ [req],
                measured := measured g @
                  [Record requestLatency (Milliseconds (Since (h_done tk) (h_now tk)))
                     [(''service'', AStr base), (''status_code'', AInt (StatusCode resp))]]\<rparr>))"
  using assms by (simp add: proxyRequest_def Let_def ten_seconds split: sum.splits)

lemma handler_not_built:
  assumes "proxied rt" "NewRequest net (i_method c) (o_url (forwarded env rt c)) = Some e"
  shows "handler fmt env net tk rt c g
     = (Written \<lparr>status = 500, payload = error_body ''Failed to create request''\<rparr>, g)"
  using assms by (simp add: handler_proxied proxy_not_built forwarded_def)

lemma handler_built:
  assumes "proxied rt" "NewRequest net (i_method c) (o_url (forwarded env rt c)) = None"
  shows "handler fmt env net tk rt c g =
     (case Do net (forwarded env rt c) of
        Inl err \<Rightarrow> (Written \<lparr>status = 502, payload = error_body ''Service unavailable''\<rparr>,
                    g\<lparr>sent := sent g @ [forwarded env rt c]\<rparr>)
      | Inr resp \<Rightarrow>
          (case Body resp of
             Inl err \<Rightarrow>
               Written \<lparr>status = 500, payload = error_body ''Failed to read response''\<rparr>
           | Inr body \<Rightarrow> c_Data (StatusCode resp) ''application/json'' body,
           g\<lparr>sent := sent g @ [forwarded env rt c],
             measured := measured g @
               [Record requestLatency (Milliseconds (Since (h_done tk) (h_now tk)))
                  [(''service'', AStr (backend_base env rt)),
                   (''status_code'', AInt (StatusCode resp))]]\<rparr>))"
  using assms
  by (simp add: handler_proxied proxy_built forwarded_def Let_def split: sum.splits)

lemma handler_unproxied:
  "\<not> proxied rt \<Longrightarrow> snd (handler fmt env net tk rt c g) = g
     \<and> (\<exists>r. fst (handler fmt env net tk rt c g) = Written r)"
  by (cases rt) simp_all

lemma middleware_outcome:
  "fst (middleware fmt env net tk rt c g) = fst (handler fmt env net tk rt c g)"
  by (simp add: middleware_def Let_def split: prod.splits outcome.splits)

lemma middleware_sent:
  "sent (snd (middleware fmt env net tk rt c g)) = sent (snd (handler fmt env net tk rt c g))"
  by (simp add: middleware_def Let_def split: prod.splits outcome.splits)

lemma middleware_measured:
  "measured (snd (middleware fmt env net tk rt c g)) =
     measured (snd (handler fmt env net tk rt c g)) @
       (case fst (handler fmt env net tk rt c g) of
          Panics p \<Rightarrow> []
        | Written r \<Rightarrow>
            [Add requestCount 1
               [(''method'', AStr (i_method c)), (''path'', AStr (i_path c)),
                (''status_code'', AInt (status r))],
             Record requestLatency (Milliseconds (Since (mw_done tk) (mw_start tk)))
               [(''method'', AStr (i_method c)), (''path'', AStr (i_path c))]])"
  by (simp add: middleware_def Let_def split: prod.splits outcome.splits)

lemma handler_measured:
  "measured (snd (handler fmt env net tk rt c g))
     = measured g @ backend_observation env net tk rt c"
proof (cases "proxied rt")
  case False
  then show ?thesis
    by (simp add: handler_unproxied backend_observation_def)
next
  case True
  show ?thesis
  proof (cases "NewRequest net (i_method c) (o_url (forwarded env rt c))")
    case None
    with True show ?thesis
      by (simp add: handler_built backend_observation_def split: sum.splits)
  next
    case (Some e)
    with True show ?thesis
      by (simp add: handler_not_built backend_observation_def)
  qed
qed

lemma handler_sends_at_most_once:
  "length (sent (snd (handler fmt env net tk rt c g))) \<le> length (sent g) + 1"
proof (cases "proxied rt")
  case False
  then show ?thesis
    by (simp add: handler_unproxied)
next
  case True
  show ?thesis
  proof (cases "NewRequest net (i_method c) (o_url (forwarded env rt c))")
    case None
    with True show ?thesis
      by (simp add: handler_built split: sum.splits)
  next
    case (Some e)
    with True show ?thesis
      by (simp add: handler_not_built)
  qed
qed

lemma handler_panics_iff:
  "(\<exists>p. fst (handler fmt env net tk rt c g) = Panics p) \<longleftrightarrow>
     proxied rt \<and> NewRequest net (i_method c) (o_url (forwarded env rt c)) = None
     \<and> (\<exists>resp body. Do net (forwarded env rt c) = Inr resp \<and> Body resp = Inr body
           \<and> ((1 \<le> StatusCode resp \<and> StatusCode resp \<le> 99) \<or> 999 < StatusCode resp))"
proof (cases "proxied rt")
  case False
  then show ?thesis
    using handler_unproxied [of rt fmt env net tk c g] by auto
next
  case True
  show ?thesis
  proof (cases "NewRequest net (i_method c) (o_url (forwarded env rt c))")
    case (Some e)
    with True show ?thesis
      by (simp add: handler_not_built)
  next
    case None
    show ?thesis
    proof (cases "Do net (forwarded env rt c)")
      case (Inl err)
      with True None show ?thesis
        by (simp add: handler_built)
    next
      case (Inr resp)
      show ?thesis
      proof (cases "Body resp")
        case (Inl err)
        with True None Inr show ?thesis
          by (simp add: handler_built)
      next
        case (Inr body)
        with True None \<open>Do net (forwarded env rt c) = Inr resp\<close> show ?thesis
          using c_Data_panics_iff [of "StatusCode resp" "''application/json''" body]
          by (simp add: handler_built)
      qed
    qed
  qed
qed

text \<open>
  C4. On a proxied route: when the outbound request cannot be built the gateway answers
  500 with an error body and sends nothing; when the outbound call fails it answers 502
  and when the body of the backend's answer cannot be read it answers 500, having sent
  the request once in both cases; and whatever happens, a request makes the gateway send
  at most one outbound request.
\<close>

theorem proxy_failure_statuses:
  assumes "proxied rt"
  shows "(NewRequest net (i_method c) (o_url (forwarded env rt c)) = Some e \<longrightarrow>
            fst (middleware fmt env net tk rt c g)
              = Written \<lparr>status = 500,
                 payload = JSON (JObj [(''error'', JStr ''Failed to create request'')])\<rparr>
            \<and> sent (snd (middleware fmt env net tk rt c g)) = sent g)
       \<and> (NewRequest net (i_method c) (o_url (forwarded env rt c)) = None
            \<and> Do net (forwarded env rt c) = Inl e \<longrightarrow>
            fst (middleware fmt env net tk rt c g)
              = Written \<lparr>status = 502,
                 payload = JSON (JObj [(''error'', JStr ''Service unavailable'')])\<rparr>
            \<and> sent (snd (middleware fmt env net tk rt c g)) = sent g @ [forwarded env rt c])
       \<and> (NewRequest net (i_method c) (o_url (forwarded env rt c)) = None
            \<and> Do net (forwarded env rt c) = Inr resp \<and> Body resp = Inl e \<longrightarrow>
            fst (middleware fmt env net tk rt c g)
              = Written \<lparr>status = 500,
                 payload = JSON (JObj [(''error'', JStr ''Failed to read response'')])\<rparr>
            \<and> sent (snd (middleware fmt env net tk rt c g)) = sent g @ [forwarded env rt c])
       \<and> length (sent (snd (middleware fmt env net tk rt c g))) \<le> length (sent g) + 1"
  using assms handler_sends_at_most_once [of fmt env net tk rt c g]
  by (auto simp: middleware_outcome middleware_sent handler_not_built handler_built
      error_body_def)

text \<open>
  The joke route with a URL that cannot be parsed, with a backend that refuses the
  connection, and with a backend whose body breaks off.
\<close>

theorem proxy_failure_statuses_witness:
  "proxied Joke_route
   \<and> NewRequest net_invalid (i_method get_joke) (o_url (forwarded no_env Joke_route get_joke))
       = Some ''invalid URL''
   \<and> fst (middleware layout_only no_env net_invalid some_ticks Joke_route get_joke idle_gateway)
       = Written \<lparr>status = 500,
                  payload = JSON (JObj [(''error'', JStr ''Failed to create request'')])\<rparr>
   \<and> sent (snd (middleware layout_only no_env net_invalid some_ticks Joke_route get_joke
                   idle_gateway)) = []
   \<and> NewRequest net_down (i_method get_joke) (o_url (forwarded no_env Joke_route get_joke)) = None
   \<and> Do net_down (forwarded no_env Joke_route get_joke) = Inl ''connection refused''
   \<and> fst (middleware layout_only no_env net_down some_ticks Joke_route get_joke idle_gateway)
       = Written \<lparr>status = 502,
                  payload = JSON (JObj [(''error'', JStr ''Service unavailable'')])\<rparr>
   \<and> sent (snd (middleware layout_only no_env net_down some_ticks Joke_route get_joke
                   idle_gateway)) = [forwarded no_env Joke_route get_joke]
   \<and> NewRequest net_unreadable (i_method get_joke) (o_url (forwarded no_env Joke_route get_joke))
       = None
   \<and> Do net_unreadable (forwarded no_env Joke_route get_joke)
       = Inr \<lparr>StatusCode = 200, Body = Inl ''unexpected EOF''\<rparr>
   \<and> fst (middleware layout_only no_env net_unreadable some_ticks Joke_route get_joke
            idle_gateway)
       = Written \<lparr>status = 500,
                  payload = JSON (JObj [(''error'', JStr ''Failed to read response'')])\<rparr>
   \<and> sent (snd (middleware layout_only no_env net_unreadable some_ticks Joke_route get_joke
                   idle_gateway)) = [forwarded no_env Joke_route get_joke]"
  using proxy_failure_statuses [where rt = Joke_route and net = net_invalid and c = get_joke
      and env = no_env and e = "''invalid URL''" and fmt = layout_only and tk = some_ticks
      and g = idle_gateway]
    proxy_failure_statuses [where rt = Joke_route and net = net_down and c = get_joke
      and env = no_env and e = "''connection refused''" and fmt = layout_only
      and tk = some_ticks and g = idle_gateway]
    proxy_failure_statuses [where rt = Joke_route and net = net_unreadable and c = get_joke
      and env = no_env and e = "''unexpected EOF''"
      and resp = "\<lparr>StatusCode = 200, Body = Inl ''unexpected EOF''\<rparr>"
      and fmt = layout_only and tk = some_ticks and g = idle_gateway]
  by (simp add: net_invalid_def net_down_def net_unreadable_def idle_gateway_def)




text \<open>
  C9, amended. When the handler of a request returns, the middleware adds to the
  measurements, after the handler's own: one increment by 1 of the request counter,
  labeled by method, path and the status code of the answer, and one latency
  observation, labeled by method and path only. When the handler panics, the middleware
  adds nothing; that happens exactly on a proxied route whose backend answers with a
  status code that cannot be written (1 to 99, or above 999). In both cases a proxied
  call that received an answer of the backend has before that added one latency
  observation labeled by the backend's base address and the backend's status code, and
  any other request has added nothing.
\<close>

theorem gateway_metrics_recorded:
  "(\<forall>r. fst (middleware fmt env net tk rt c g) = Written r \<longrightarrow>
      measured (snd (middleware fmt env net tk rt c g))
        = measured g @ backend_observation env net tk rt c @
          [Add requestCount 1
             [(''method'', AStr (i_method c)), (''path'', AStr (i_path c)),
              (''status_code'', AInt (status r))],
           Record requestLatency (Milliseconds (Since (mw_done tk) (mw_start tk)))
             [(''method'', AStr (i_method c)), (''path'', AStr (i_path c))]])
   \<and> (\<forall>p. fst (middleware fmt env net tk rt c g) = Panics p \<longrightarrow>
      measured (snd (middleware fmt env net tk rt c g))
        = measured g @ backend_observation env net tk rt c)
   \<and> ((\<exists>p. fst (middleware fmt env net tk rt c g) = Panics p) \<longleftrightarrow>
        proxied rt \<and> NewRequest net (i_method c) (o_url (forwarded env rt c)) = None
        \<and> (\<exists>resp body. Do net (forwarded env rt c) = Inr resp \<and> Body resp = Inr body
              \<and> ((1 \<le> StatusCode resp \<and> StatusCode resp \<le> 99) \<or> 999 < StatusCode resp)))"
  using handler_panics_iff [of fmt env net tk rt c g]
  by (simp add: middleware_measured handler_measured middleware_outcome)

text \<open>
  The joke route with a configured backend that answers 201: three measurements. With
  one that answers 99: the backend's observation alone.
\<close>

theorem gateway_metrics_recorded_witness:
  "fst (middleware layout_only jokes_env net_ok some_ticks Joke_route get_joke idle_gateway)
     = Written \<lparr>status = 201, payload = Data ''application/json'' ''created''\<rparr>
   \<and> measured (snd (middleware layout_only jokes_env net_ok some_ticks Joke_route get_joke
                      idle_gateway))
     = [Record requestLatency 7 [(''service'', AStr ''jokes:8081''), (''status_code'', AInt 201)],
        Add requestCount 1
          [(''method'', AStr ''GET''), (''path'', AStr ''/api/v1/joke''),
           (''status_code'', AInt 201)],
        Record requestLatency 9 [(''method'', AStr ''GET''), (''path'', AStr ''/api/v1/joke'')]]
   \<and> fst (middleware layout_only jokes_env net_low some_ticks Joke_route get_joke idle_gateway)
     = Panics (Panic ''invalid WriteHeader code'')
   \<and> measured (snd (middleware layout_only jokes_env net_low some_ticks Joke_route get_joke
                      idle_gateway))
     = [Record requestLatency 7 [(''service'', AStr ''jokes:8081''), (''status_code'', AInt 99)]]"
  using gateway_metrics_recorded [where rt = Joke_route and net = net_ok and c = get_joke
      and env = jokes_env and fmt = layout_only and tk = some_ticks and g = idle_gateway]
    gateway_metrics_recorded [where rt = Joke_route and net = net_low and c = get_joke
      and env = jokes_env and fmt = layout_only and tk = some_ticks and g = idle_gateway]
  by (simp add: backend_observation_def forwarded_def backend_base_def Getenv_def jokes_env_def
      net_ok_def net_low_def get_joke_def idle_gateway_def some_ticks_def middleware_def
      proxyRequest_def c_Data_def bodyAllowedForStatus_def Let_def Milliseconds_def Since_def
      Sub_def maxDuration_def minDuration_def Second_def)

text \<open>
  A health check: the latency observation of the request carries the method and the
  path, and no status code.
\<close>

theorem latency_without_status_code_counterexample:
  "measured (snd (middleware layout_only no_env net_down some_ticks Healthz get_healthz
                    idle_gateway))
     = [Add requestCount 1
          [(''method'', AStr ''GET''), (''path'', AStr ''/healthz''), (''status_code'', AInt 200)],
        Record requestLatency 9 [(''method'', AStr ''GET''), (''path'', AStr ''/healthz'')]]"
  by (simp add: middleware_def get_healthz_def idle_gateway_def some_ticks_def Milliseconds_def
      Since_def Sub_def maxDuration_def minDuration_def)

end
